theory Spec2Isabelle
  imports Complex_Main "HOL-Library.Word" "HOL-Library.Sublist" "HOL-Library.AList"
begin

section \<open>JavaScript values\<close>

subsection \<open>Strings\<close>

text \<open>
  A JavaScript string is a sequence of UTF-16 code units and \<open>.length\<close> counts code
  units, so a string is a list of 16-bit words. ASCII text is written with \<open>js\<close>;
  the code units of the non-ASCII characters of the source's literals are written as
  numbers.
\<close>

type_synonym jsstring = "16 word list"

definition js :: "string \<Rightarrow> jsstring" where
  "js s = map of_char s"

definition nl :: jsstring where
  "nl = [10]"

text \<open>\<open>Array.prototype.join\<close> on an array of strings.\<close>

fun join :: "jsstring \<Rightarrow> jsstring list \<Rightarrow> jsstring" where
  "join sep [] = []"
| "join sep [x] = x"
| "join sep (x # y # ys) = x @ sep @ join sep (y # ys)"

text \<open>
  \<open>Array.prototype.slice(start, end)\<close> and \<open>String.prototype.slice(start, end)\<close> on
  integer arguments: a negative index counts from the end, and both are clamped to the
  length.
\<close>

definition slice_js :: "'a list \<Rightarrow> int \<Rightarrow> int \<Rightarrow> 'a list" where
  "slice_js xs start end =
     (let len = int (length xs);
          k = (if start < 0 then max (len + start) 0 else min start len);
          final = (if end < 0 then max (len + end) 0 else min end len)
      in take (nat (final - k)) (drop (nat k) xs))"

text \<open>\<open>String.prototype.substring(0, n)\<close> for a natural number \<open>n\<close>.\<close>

definition substring0 :: "jsstring \<Rightarrow> nat \<Rightarrow> jsstring" where
  "substring0 s n = take n s"

subsection \<open>Numbers\<close>

text \<open>
  The numbers of this program are lengths, counts, page numbers and the integer
  parameters of the tools; they are modelled as \<open>nat\<close> and \<open>int\<close>. Fractional
  parameters are outside the model. \<open>showInt\<close> is the conversion of an integer to a
  string inside a template literal.
\<close>

fun showNat :: "nat \<Rightarrow> jsstring" where
  "showNat n = (if n < 10 then [of_nat (48 + n)]
                else showNat (n div 10) @ [of_nat (48 + n mod 10)])"

declare showNat.simps [simp del]

definition showInt :: "int \<Rightarrow> jsstring" where
  "showInt i = (if i < 0 then js ''-'' @ showNat (nat (- i)) else showNat (nat i))"

text \<open>\<open>Math.ceil(a / b)\<close> for natural numbers \<open>a\<close> and \<open>b > 0\<close>.\<close>

definition ceil_div :: "nat \<Rightarrow> nat \<Rightarrow> nat" where
  "ceil_div a b = (a + b - 1) div b"

subsection \<open>JSON values and objects\<close>

text \<open>
  Tool arguments and evaluation results are JSON values. An object is the list of its
  properties in enumeration order, without duplicate keys; the keys of tool arguments
  are identifiers, so the special ordering of array-index keys does not arise.
\<close>

datatype json =
    JNull
  | JBool bool
  | JNum int
  | JStr jsstring
  | JArr "json list"
  | JObj "(jsstring \<times> json) list"

type_synonym obj = "(jsstring \<times> json) list"

text \<open>Property read: \<open>None\<close> is \<open>undefined\<close>.\<close>

definition obj_get :: "obj \<Rightarrow> jsstring \<Rightarrow> json option" where
  "obj_get ob k = map_of ob k"

text \<open>Property write: an existing key keeps its place, a new key goes last.\<close>

definition obj_set :: "jsstring \<Rightarrow> json \<Rightarrow> obj \<Rightarrow> obj" where
  "obj_set k v ob = AList.update k v ob"

definition obj_delete :: "jsstring \<Rightarrow> obj \<Rightarrow> obj" where
  "obj_delete k ob = AList.delete k ob"

text \<open>The object literal \<open>{...a, ...b}\<close>.\<close>

definition spread :: "obj \<Rightarrow> obj \<Rightarrow> obj" where
  "spread a b = fold (\<lambda>(k, v). obj_set k v) b (fold (\<lambda>(k, v). obj_set k v) a [])"

text \<open>Truthiness of a value that may be \<open>undefined\<close>.\<close>

fun truthy :: "json option \<Rightarrow> bool" where
  "truthy None = False"
| "truthy (Some JNull) = False"
| "truthy (Some (JBool b)) = b"
| "truthy (Some (JNum n)) = (n \<noteq> 0)"
| "truthy (Some (JStr s)) = (s \<noteq> [])"
| "truthy (Some (JArr xs)) = True"
| "truthy (Some (JObj kvs)) = True"

text \<open>\<open>x || d\<close> on an optional integer parameter: zero is falsy.\<close>

definition orInt :: "int option \<Rightarrow> int \<Rightarrow> int" where
  "orInt x d = (case x of None \<Rightarrow> d | Some n \<Rightarrow> if n \<noteq> 0 then n else d)"


definition truthyStr :: "jsstring option \<Rightarrow> bool" where
  "truthyStr x = (case x of None \<Rightarrow> False | Some s \<Rightarrow> s \<noteq> [])"

text \<open>\<open>typeof\<close> of a value that may be \<open>undefined\<close>.\<close>

fun typeof :: "json option \<Rightarrow> jsstring" where
  "typeof None = js ''undefined''"
| "typeof (Some (JBool b)) = js ''boolean''"
| "typeof (Some (JNum n)) = js ''number''"
| "typeof (Some (JStr s)) = js ''string''"
| "typeof (Some v) = js ''object''"

subsection \<open>\<open>JSON.stringify\<close>\<close>

definition hexDigit :: "nat \<Rightarrow> 16 word" where
  "hexDigit d = (if d < 10 then of_nat (48 + d) else of_nat (87 + d))"

definition unicodeEscape :: "16 word \<Rightarrow> jsstring" where
  "unicodeEscape c =
     (let n = unat c
      in [92, 117, hexDigit (n div 4096 mod 16), hexDigit (n div 256 mod 16),
          hexDigit (n div 16 mod 16), hexDigit (n mod 16)])"

definition isLeadingSurrogate :: "16 word \<Rightarrow> bool" where
  "isLeadingSurrogate c = (0xD800 \<le> c \<and> c \<le> 0xDBFF)"

definition isTrailingSurrogate :: "16 word \<Rightarrow> bool" where
  "isTrailingSurrogate c = (0xDC00 \<le> c \<and> c \<le> 0xDFFF)"

text \<open>
  The body of \<open>QuoteJSONString\<close>: the escapes of the standard's table, a
  \<open>\u\<close> escape for a control character and for a surrogate that has no partner, and
  every other code unit as it is.
\<close>

fun quoteUnits :: "jsstring \<Rightarrow> jsstring" where
  "quoteUnits [] = []"
| "quoteUnits (c # cs) =
     (if c = 8 then [92, 98] @ quoteUnits cs
      else if c = 9 then [92, 116] @ quoteUnits cs
      else if c = 10 then [92, 110] @ quoteUnits cs
      else if c = 12 then [92, 102] @ quoteUnits cs
      else if c = 13 then [92, 114] @ quoteUnits cs
      else if c = 34 then [92, 34] @ quoteUnits cs
      else if c = 92 then [92, 92] @ quoteUnits cs
      else if c < 32 then unicodeEscape c @ quoteUnits cs
      else if isLeadingSurrogate c then
        (case cs of
           [] \<Rightarrow> unicodeEscape c
         | d # ds \<Rightarrow>
             if isTrailingSurrogate d then c # d # quoteUnits ds
             else unicodeEscape c @ quoteUnits cs)
      else if isTrailingSurrogate c then unicodeEscape c @ quoteUnits cs
      else c # quoteUnits cs)"

definition QuoteJSONString :: "jsstring \<Rightarrow> jsstring" where
  "QuoteJSONString s = [34] @ quoteUnits s @ [34]"

text \<open>
  \<open>SerializeJSONProperty\<close> with the gap and the current indentation. The values of
  the model are all defined, so no property is left out.
\<close>

fun serializeJSON :: "jsstring \<Rightarrow> jsstring \<Rightarrow> json \<Rightarrow> jsstring" where
  "serializeJSON gap indent JNull = js ''null''"
| "serializeJSON gap indent (JBool b) = (if b then js ''true'' else js ''false'')"
| "serializeJSON gap indent (JNum n) = showInt n"
| "serializeJSON gap indent (JStr s) = QuoteJSONString s"
| "serializeJSON gap indent (JArr xs) =
     (let partial = map (serializeJSON gap (indent @ gap)) xs
      in if partial = [] then js ''[]''
         else if gap = [] then js ''['' @ join (js '','') partial @ js '']''
         else js ''['' @ nl @ (indent @ gap)
              @ join (js '','' @ nl @ (indent @ gap)) partial
              @ nl @ indent @ js '']'')"
| "serializeJSON gap indent (JObj kvs) =
     (let partial =
            map (\<lambda>(k, v). QuoteJSONString k @ js '':''
                   @ (if gap = [] then [] else js '' '')
                   @ serializeJSON gap (indent @ gap) v) kvs
      in if partial = [] then js ''{}''
         else if gap = [] then js ''{'' @ join (js '','') partial @ js ''}''
         else js ''{'' @ nl @ (indent @ gap)
              @ join (js '','' @ nl @ (indent @ gap)) partial
              @ nl @ indent @ js ''}'')"

text \<open>\<open>JSON.stringify(value)\<close> and \<open>JSON.stringify(value, null, 2)\<close>.\<close>

definition JSON_stringify :: "json \<Rightarrow> jsstring" where
  "JSON_stringify v = serializeJSON [] [] v"

definition JSON_stringify2 :: "json \<Rightarrow> jsstring" where
  "JSON_stringify2 v = serializeJSON (js ''  '') [] v"

subsection \<open>\<open>Buffer.toString('base64')\<close>\<close>

definition base64Char :: "nat \<Rightarrow> 16 word" where
  "base64Char n =
     js ''ABCDEFGHIJKLMNOPQRSTUVWXYZabcdefghijklmnopqrstuvwxyz0123456789+/'' ! (n mod 64)"

fun base64 :: "8 word list \<Rightarrow> jsstring" where
  "base64 [] = []"
| "base64 [a] =
     [base64Char (unat a div 4), base64Char (unat a mod 4 * 16), 61, 61]"
| "base64 [a, b] =
     [base64Char (unat a div 4), base64Char (unat a mod 4 * 16 + unat b div 16),
      base64Char (unat b mod 16 * 4), 61]"
| "base64 (a # b # c # rest) =
     [base64Char (unat a div 4), base64Char (unat a mod 4 * 16 + unat b div 16),
      base64Char (unat b mod 16 * 4 + unat c div 64), base64Char (unat c mod 64)]
     @ base64 rest"

section \<open>Data model\<close>

text \<open>
  The page-state snapshot of a tab and what it holds. A console message is known by
  its \<open>toString()\<close> text and a modal state by its description; a download entry by
  its flag, file name and output path.
\<close>

record ConsoleMessage =
  toString :: jsstring

record Download =
  finished :: bool
  suggestedFilename :: jsstring
  outputFile :: jsstring

datatype ModalState = ModalState jsstring

record TabSnapshot =
  url :: jsstring
  title :: jsstring
  ariaSnapshot :: jsstring
  modalStates :: "ModalState list"
  consoleMessages :: "ConsoleMessage list"
  downloads :: "Download list"

record Request =
  req_method :: jsstring
  req_url :: jsstring

record NetResponse =
  res_status :: int
  res_statusText :: jsstring

record Tab =
  isCurrentTab :: bool
  lastTitle :: jsstring
  page_url :: jsstring
  tab_consoleMessages :: "ConsoleMessage list"
  tab_requests :: "(Request \<times> NetResponse option) list"

record Context =
  tabs :: "Tab list"
  currentTab :: "Tab option"
  config_imageResponses :: "jsstring option"

record Image =
  contentType :: jsstring
  data :: "8 word list"

text \<open>
  The private fields of class \<open>Response\<close> carry the prefix \<open>priv_\<close> in place of the
  source's underscore. The context is passed to the methods that read it.
\<close>

record Response =
  priv_result :: "jsstring list"
  priv_code :: "jsstring list"
  priv_images :: "Image list"
  priv_includeSnapshot :: bool
  priv_includeTabs :: bool
  priv_tabSnapshot :: "TabSnapshot option"
  priv_paginationInfo :: "(bool \<times> int option \<times> int option) option"
  toolName :: jsstring
  toolArgs :: obj
  priv_isError :: "bool option"

text \<open>The result object of \<open>checkTokenLimit\<close>; an absent field is \<open>None\<close>.\<close>

record TokenCheck =
  needsPagination :: bool
  totalPages :: "nat option"
  message :: "jsstring option"

text \<open>The content entries and the value returned by \<open>serialize\<close>.\<close>

datatype ContentEntry =
    TextContent jsstring
  | ImageContent jsstring jsstring

record Serialized =
  content :: "ContentEntry list"
  isError :: "bool option"

text \<open>
  What the code calls and \<open>src/\<close> does not hold: the locale's number formatting
  (\<open>Number.prototype.toLocaleString\<close>), the conversion of a string, array or object to
  a number, \<open>String.prototype.toUpperCase\<close>, \<open>renderModalStates\<close>,
  \<open>captureSnapshot\<close> and \<open>updateTitle\<close> of \<open>tab.js\<close>, \<open>quote\<close> of
  \<open>javascript.js\<close> and \<open>generateLocator\<close> of \<open>utils.js\<close> applied to the
  locator of a reference and an element description.
\<close>

record externals =
  toLocaleString :: "nat \<Rightarrow> jsstring"
  toNumberOther :: "json \<Rightarrow> int"
  toUpperCase :: "jsstring \<Rightarrow> jsstring"
  renderModalStates :: "Context \<Rightarrow> ModalState list \<Rightarrow> jsstring list"
  captureSnapshot :: "Tab \<Rightarrow> TabSnapshot option"
  updateTitle :: "Tab \<Rightarrow> Tab"
  quote :: "jsstring \<Rightarrow> jsstring"
  generateLocator :: "jsstring \<Rightarrow> jsstring \<Rightarrow> jsstring"

section \<open>Class \<open>Response\<close>\<close>

definition TOKEN_LIMIT :: nat where
  "TOKEN_LIMIT = 22000"

definition newResponse :: "jsstring \<Rightarrow> obj \<Rightarrow> Response" where
  "newResponse name args =
     \<lparr>priv_result = [], priv_code = [], priv_images = [], priv_includeSnapshot = False,
      priv_includeTabs = False, priv_tabSnapshot = None, priv_paginationInfo = None,
      toolName = name, toolArgs = args, priv_isError = None\<rparr>"

definition addResult :: "jsstring \<Rightarrow> Response \<Rightarrow> Response" where
  "addResult result r = r\<lparr>priv_result := priv_result r @ [result]\<rparr>"

definition addError :: "jsstring \<Rightarrow> Response \<Rightarrow> Response" where
  "addError error r = r\<lparr>priv_result := priv_result r @ [error], priv_isError := Some True\<rparr>"

definition result :: "Response \<Rightarrow> jsstring" where
  "result r = join nl (priv_result r)"

definition addCode :: "jsstring \<Rightarrow> Response \<Rightarrow> Response" where
  "addCode code r = r\<lparr>priv_code := priv_code r @ [code]\<rparr>"

definition code :: "Response \<Rightarrow> jsstring" where
  "code r = join nl (priv_code r)"

definition addImage :: "Image \<Rightarrow> Response \<Rightarrow> Response" where
  "addImage img r = r\<lparr>priv_images := priv_images r @ [img]\<rparr>"

definition images :: "Response \<Rightarrow> Image list" where
  "images r = priv_images r"

definition setIncludeSnapshot :: "Response \<Rightarrow> Response" where
  "setIncludeSnapshot r = r\<lparr>priv_includeSnapshot := True\<rparr>"

definition setIncludeTabs :: "Response \<Rightarrow> Response" where
  "setIncludeTabs r = r\<lparr>priv_includeTabs := True\<rparr>"

definition setPaginationInfo :: "bool \<Rightarrow> int option \<Rightarrow> int option \<Rightarrow> Response \<Rightarrow> Response" where
  "setPaginationInfo needs pages page r =
     r\<lparr>priv_paginationInfo := Some (needs, pages, page)\<rparr>"

text \<open>The local \<open>estimatedTokens\<close> of \<open>checkTokenLimit\<close>: \<open>Math.ceil(content.length / 4)\<close>.\<close>

definition estimateTokens :: "jsstring \<Rightarrow> nat" where
  "estimateTokens str = ceil_div (length str) 4"

definition checkTokenLimit :: "externals \<Rightarrow> jsstring \<Rightarrow> TokenCheck" where
  "checkTokenLimit ext str =
     (let estimatedTokens = estimateTokens str
      in if estimatedTokens > TOKEN_LIMIT then
           (let pages = ceil_div estimatedTokens TOKEN_LIMIT
            in \<lparr>needsPagination = True,
                totalPages = Some pages,
                message = Some
                  ([0x26A0, 0xFE0F] @ js '' ''
                   @ [0x8FD4, 0x56DE, 0x5185, 0x5BB9, 0x8FC7, 0x5927] @ js '' ('' @ [0x7EA6]
                   @ toLocaleString ext estimatedTokens
                   @ js '' tokens)'' @ [0xFF0C, 0x8D85, 0x51FA, 0x9650, 0x5236] @ js '' (''
                   @ toLocaleString ext TOKEN_LIMIT
                   @ js '' tokens)'' @ [0x3002, 0x9700, 0x8981, 0x5206]
                   @ showNat pages
                   @ [0x9875, 0x83B7, 0x53D6, 0x3002])\<rparr>)
         else \<lparr>needsPagination = False, totalPages = None, message = None\<rparr>)"

subsection \<open>\<open>addPaginationWarning\<close>\<close>

text \<open>\<open>x || d\<close> on a property value.\<close>

definition orJson :: "json option \<Rightarrow> json \<Rightarrow> json" where
  "orJson x d = (case x of None \<Rightarrow> d | Some v \<Rightarrow> if truthy x then v else d)"

text \<open>The conversion of the right operand of \<open>*\<close> to a number.\<close>

definition ToNumber :: "externals \<Rightarrow> json \<Rightarrow> int" where
  "ToNumber ext v =
     (case v of
        JNull \<Rightarrow> 0
      | JBool b \<Rightarrow> (if b then 1 else 0)
      | JNum n \<Rightarrow> n
      | _ \<Rightarrow> toNumberOther ext v)"

text \<open>\<open>baseParams\<close>: the tool arguments and the additional parameters, without
  \<open>limit\<close> and \<open>offset\<close>.\<close>

definition baseParamsOf :: "obj \<Rightarrow> obj \<Rightarrow> obj" where
  "baseParamsOf args additionalParams =
     obj_delete (js ''offset'') (obj_delete (js ''limit'') (spread args additionalParams))"

text \<open>The object \<open>pageParams\<close> of one round of the loop.\<close>

definition pageParams :: "externals \<Rightarrow> obj \<Rightarrow> int \<Rightarrow> obj" where
  "pageParams ext baseParams page =
     (let off = (page - 1) * ToNumber ext (orJson (obj_get baseParams (js ''limit'')) (JNum 100))
      in obj_set (js ''offset'') (JNum off)
           (obj_set (js ''limit'') (orJson (obj_get baseParams (js ''limit'')) (JNum 100))
              (spread baseParams [])))"

text \<open>The line added to the message for one page, given its \<open>pageParams\<close>.\<close>

definition pageEntry :: "int \<Rightarrow> int \<Rightarrow> obj \<Rightarrow> jsstring" where
  "pageEntry pages page params =
     [0x9875, 0x9762] @ showInt page @ js ''/'' @ showInt pages
     @ js '': '' @ [0x4F7F, 0x7528, 0x53C2, 0x6570] @ js '' ''
     @ JSON_stringify (JObj params) @ nl"

definition pageLine :: "externals \<Rightarrow> obj \<Rightarrow> int \<Rightarrow> int \<Rightarrow> jsstring" where
  "pageLine ext baseParams pages page = pageEntry pages page (pageParams ext baseParams page)"

text \<open>The \<open>for\<close> loop over the pages, from \<open>page\<close> on.\<close>

function pageLoop :: "externals \<Rightarrow> obj \<Rightarrow> int \<Rightarrow> int \<Rightarrow> jsstring \<Rightarrow> jsstring" where
  "pageLoop ext baseParams pages page msg =
     (if page \<le> min pages 5
      then pageLoop ext baseParams pages (page + 1) (msg @ pageLine ext baseParams pages page)
      else msg)"
  by pat_completeness auto
termination
  by (relation "measure (\<lambda>(ext, baseParams, pages, page, msg). nat (6 - page))") auto

declare pageLoop.simps [simp del]

definition paginationHeader :: "int \<Rightarrow> jsstring" where
  "paginationHeader pages =
     [0x26A0, 0xFE0F] @ js '' ''
     @ [0x8FD4, 0x56DE, 0x5185, 0x5BB9, 0x8FC7, 0x5927, 0xFF0C, 0x5EFA, 0x8BAE, 0x5206]
     @ showInt pages @ [0x9875, 0x83B7, 0x53D6, 0xFF1A] @ nl @ nl"

definition remainderLine :: "int \<Rightarrow> jsstring" where
  "remainderLine pages =
     js ''... ('' @ [0x8FD8, 0x6709] @ showInt (pages - 5) @ [0x9875] @ js '')'' @ nl"

definition paginationFooter :: jsstring where
  "paginationFooter =
     nl @ [0x6216, 0x8003, 0x8651, 0x4F7F, 0x7528, 0x66F4, 0x5C0F, 0x7684] @ js ''limit''
     @ [0x503C, 0x6765, 0x51CF, 0x5C11, 0x6BCF, 0x9875, 0x6570, 0x636E, 0x91CF, 0x3002]"

definition addPaginationWarning ::
    "externals \<Rightarrow> int \<Rightarrow> jsstring \<Rightarrow> obj \<Rightarrow> Response \<Rightarrow> Response" where
  "addPaginationWarning ext pages name additionalParams r =
     (let baseParams = baseParamsOf (toolArgs r) additionalParams;
          msg1 = pageLoop ext baseParams pages 1 (paginationHeader pages);
          msg2 = (if pages > 5 then msg1 @ remainderLine pages else msg1);
          msg3 = msg2 @ paginationFooter
      in addResult msg3 r)"

subsection \<open>Snapshot truncation and \<open>finish\<close>\<close>

definition snapshotWarning :: "externals \<Rightarrow> nat \<Rightarrow> jsstring" where
  "snapshotWarning ext estimatedTokens =
     nl @ nl @ [0x26A0, 0xFE0F] @ js '' SNAPSHOT TRUNCATED: Page snapshot was too large (''
     @ toLocaleString ext estimatedTokens
     @ js '' tokens, limit: ''
     @ toLocaleString ext TOKEN_LIMIT
     @ js '').'' @ nl @ nl
     @ js ''To get a complete snapshot, use browser_snapshot with filtering parameters:'' @ nl
     @ js ''- {\"maxElements\": 200} - Limit number of elements'' @ nl
     @ js ''- {\"elementTypes\": [\"button\", \"textbox\", \"link\", \"heading\"]} - Filter by element types  '' @ nl
     @ js ''- {\"skipLargeTexts\": true} - Skip elements with large text content'' @ nl
     @ js ''- Combine parameters for best results'' @ nl @ nl
     @ js ''--- TRUNCATED SNAPSHOT ABOVE ---''"

text \<open>
  \<open>Math.floor(targetLength * 0.8)\<close>: the product of the doubles 88000 and 0.8 rounds
  to 70400, which integer arithmetic gives as well.
\<close>

definition createTruncatedSnapshot :: "externals \<Rightarrow> TabSnapshot \<Rightarrow> TokenCheck \<Rightarrow> TabSnapshot" where
  "createTruncatedSnapshot ext fullSnapshot tokenCheck =
     (let estimatedTokens = ceil_div (length (ariaSnapshot fullSnapshot)) 4;
          targetLength = TOKEN_LIMIT * 4;
          truncationPoint = targetLength * 8 div 10;
          truncatedAriaSnapshot = substring0 (ariaSnapshot fullSnapshot) truncationPoint;
          warningMessage = snapshotWarning ext estimatedTokens
      in fullSnapshot\<lparr>ariaSnapshot := truncatedAriaSnapshot @ warningMessage\<rparr>)"

text \<open>
  \<open>finish\<close> returns the response and the context, whose tabs have had their titles
  updated. The captured snapshot may be undefined (\<open>None\<close>).
\<close>

definition finish :: "externals \<Rightarrow> Context \<Rightarrow> Response \<Rightarrow> Response \<times> Context" where
  "finish ext ctx r =
     (let r' =
        (case currentTab ctx of
           None \<Rightarrow> r
         | Some tab \<Rightarrow>
             if priv_includeSnapshot r then
               (case captureSnapshot ext tab of
                  None \<Rightarrow> r\<lparr>priv_tabSnapshot := None\<rparr>
                | Some tempSnapshot \<Rightarrow>
                    if ariaSnapshot tempSnapshot \<noteq> [] then
                      (let tokenCheck = checkTokenLimit ext (ariaSnapshot tempSnapshot)
                       in if needsPagination tokenCheck
                          then r\<lparr>priv_tabSnapshot :=
                                   Some (createTruncatedSnapshot ext tempSnapshot tokenCheck)\<rparr>
                          else r\<lparr>priv_tabSnapshot := Some tempSnapshot\<rparr>)
                    else r\<lparr>priv_tabSnapshot := Some tempSnapshot\<rparr>)
             else r)
      in (r', ctx\<lparr>tabs := map (updateTitle ext) (tabs ctx),
                  currentTab := map_option (updateTitle ext) (currentTab ctx)\<rparr>))"

definition tabSnapshot :: "Response \<Rightarrow> TabSnapshot option" where
  "tabSnapshot r = priv_tabSnapshot r"

subsection \<open>Rendering and \<open>serialize\<close>\<close>

definition trim :: "jsstring \<Rightarrow> nat \<Rightarrow> jsstring" where
  "trim str maxLength =
     (if length str \<le> maxLength then str
      else slice_js str 0 (int maxLength) @ js ''...'')"

definition renderTabSnapshot :: "TabSnapshot \<Rightarrow> jsstring" where
  "renderTabSnapshot snapshot =
     (let lines1 =
            (if consoleMessages snapshot \<noteq> [] then
               [js ''### New console messages'']
               @ map (\<lambda>m. js ''- '' @ trim (toString m) 100) (consoleMessages snapshot)
               @ [[]]
             else []);
          lines2 =
            (if downloads snapshot \<noteq> [] then
               lines1 @ [js ''### Downloads'']
               @ map (\<lambda>entry.
                        if finished entry
                        then js ''- Downloaded file '' @ suggestedFilename entry
                             @ js '' to '' @ outputFile entry
                        else js ''- Downloading file '' @ suggestedFilename entry @ js '' ...'')
                     (downloads snapshot)
               @ [[]]
             else lines1);
          lines3 =
            lines2
            @ [js ''### Page state'',
               js ''- Page URL: '' @ url snapshot,
               js ''- Page Title: '' @ title snapshot,
               js ''- Page Snapshot:'',
               js ''```yaml'',
               ariaSnapshot snapshot,
               js ''```'']
      in join nl lines3)"

definition renderTabsMarkdown :: "Tab list \<Rightarrow> bool \<Rightarrow> jsstring list" where
  "renderTabsMarkdown ts force =
     (if length ts = 1 \<and> \<not> force then []
      else if ts = [] then
        [js ''### Open tabs'',
         js ''No open tabs. Use the \"browser_navigate\" tool to navigate to a page first.'',
         []]
      else
        [js ''### Open tabs'']
        @ map (\<lambda>(i, tab).
                 js ''- '' @ showNat i @ js '':''
                 @ (if isCurrentTab tab then js '' (current)'' else [])
                 @ js '' ['' @ lastTitle tab @ js ''] ('' @ page_url tab @ js '')'')
              (zip [0 ..< length ts] ts)
        @ [[]])"

text \<open>The text assembled by \<open>serialize\<close> before the final check: \<open>fullResponse\<close>.\<close>

definition fullResponse :: "externals \<Rightarrow> Context \<Rightarrow> Response \<Rightarrow> jsstring" where
  "fullResponse ext ctx r =
     (let response1 =
            (if priv_result r \<noteq> []
             then [js ''### Result'', join nl (priv_result r), []]
             else []);
          response2 =
            (if priv_code r \<noteq> []
             then response1
                  @ [js ''### Ran Playwright code'' @ nl @ js ''```js'' @ nl
                     @ join nl (priv_code r) @ nl @ js ''```'',
                     []]
             else response1);
          response3 =
            (if priv_includeSnapshot r \<or> priv_includeTabs r
             then response2 @ renderTabsMarkdown (tabs ctx) (priv_includeTabs r)
             else response2);
          response4 =
            (case priv_tabSnapshot r of
               None \<Rightarrow> response3
             | Some snapshot \<Rightarrow>
                 if modalStates snapshot \<noteq> []
                 then response3 @ renderModalStates ext ctx (modalStates snapshot) @ [[]]
                 else response3 @ [renderTabSnapshot snapshot, []])
      in join nl response4)"

definition truncationNotice :: "externals \<Rightarrow> jsstring" where
  "truncationNotice ext =
     nl @ nl @ [0x26A0, 0xFE0F] @ js '' RESPONSE TRUNCATED: Output exceeded ''
     @ toLocaleString ext TOKEN_LIMIT
     @ js '' tokens and was automatically truncated. Use browser_snapshot with filtering parameters for complete results.''"

text \<open>
  \<open>serialize\<close>. The product \<open>TOKEN_LIMIT * 4 * 0.9\<close> of doubles rounds to 79200,
  which integer arithmetic gives as well. The two debug lines written to the error
  stream are left out.
\<close>

definition serialize :: "externals \<Rightarrow> Context \<Rightarrow> Response \<Rightarrow> Serialized" where
  "serialize ext ctx r =
     (let full = fullResponse ext ctx r;
          tokenCheck = checkTokenLimit ext full
      in if needsPagination tokenCheck then
           (let maxLength = TOKEN_LIMIT * 4 * 9 div 10;
                truncated = substring0 full maxLength;
                warningMsg = truncationNotice ext
            in \<lparr>content = [TextContent (truncated @ warningMsg)], isError = priv_isError r\<rparr>)
         else
           \<lparr>content =
              [TextContent full]
              @ (if config_imageResponses ctx \<noteq> Some (js ''omit'')
                 then map (\<lambda>img. ImageContent (base64 (data img)) (contentType img))
                        (priv_images r)
                 else []),
            isError = priv_isError r\<rparr>)"

section \<open>List tools\<close>

text \<open>The parameters of both list tools; an absent parameter is \<open>None\<close>.\<close>

record ListParams =
  limit :: "int option"
  offset :: "int option"

subsection \<open>\<open>browser_console_messages\<close>\<close>


subsection \<open>\<open>browser_network_requests\<close>\<close>



section \<open>The two \<open>browser_evaluate\<close> handlers\<close>

record EvaluateParams =
  p_function :: jsstring
  element :: "jsstring option"
  ref :: "jsstring option"
  maxLength :: "int option"
  returnSummary :: "bool option"

text \<open>
  The value returned by the page for the evaluated function is an input of the model:
  a JSON value, or \<open>None\<close> for \<open>undefined\<close>. \<open>jsonResultOf\<close> is
  \<open>JSON.stringify(result, null, 2) || 'undefined'\<close>.
\<close>

definition jsonResultOf :: "json option \<Rightarrow> jsstring" where
  "jsonResultOf res =
     (case res of
        None \<Rightarrow> js ''undefined''
      | Some v \<Rightarrow> if JSON_stringify2 v \<noteq> [] then JSON_stringify2 v else js ''undefined'')"

text \<open>The first statements of both handlers: the snapshot flag and the code line.\<close>

definition evaluate_prologue :: "externals \<Rightarrow> EvaluateParams \<Rightarrow> Response \<Rightarrow> Response" where
  "evaluate_prologue ext params response =
     (let r1 = setIncludeSnapshot response
      in case (ref params, element params) of
           (Some rf, Some el) \<Rightarrow>
             if rf \<noteq> [] \<and> el \<noteq> []
             then addCode (js ''await page.'' @ generateLocator ext rf el @ js ''.evaluate(''
                           @ quote ext (p_function params) @ js '');'') r1
             else addCode (js ''await page.evaluate('' @ quote ext (p_function params)
                           @ js '');'') r1
         | _ \<Rightarrow>
             addCode (js ''await page.evaluate('' @ quote ext (p_function params)
                      @ js '');'') r1)"

text \<open>The summary written when the result is longer than \<open>maxLength\<close>; both
  handlers build the same object.\<close>

definition lengthSummary :: "json option \<Rightarrow> jsstring \<Rightarrow> int \<Rightarrow> json" where
  "lengthSummary res jsonResult maxLen =
     JObj [(js ''type'', JStr (typeof res)),
           (js ''length'', JNum (int (length jsonResult))),
           (js ''preview'', JStr (slice_js jsonResult 0 maxLen)),
           (js ''truncated'', JBool True),
           (js ''suggestion'',
            JStr (js ''Use maxLength parameter or set returnSummary: false for full result''))]"

subsection \<open>The handler that checks the token budget first\<close>

definition evaluate_budget_first ::
    "externals \<Rightarrow> EvaluateParams \<Rightarrow> json option \<Rightarrow> Response \<Rightarrow> Response" where
  "evaluate_budget_first ext params res response =
     (let r = evaluate_prologue ext params response;
          jsonResult = jsonResultOf res;
          maxLen = orInt (maxLength params) 10000;
          tokenCheck = checkTokenLimit ext jsonResult
      in if needsPagination tokenCheck then
           (if returnSummary params = Some True then
              addResult
                (JSON_stringify2
                   (JObj [(js ''type'', JStr (typeof res)),
                          (js ''length'', JNum (int (length jsonResult))),
                          (js ''estimatedTokens'', JNum (int (ceil_div (length jsonResult) 3))),
                          (js ''preview'', JStr (slice_js jsonResult 0 1000)),
                          (js ''truncated'', JBool True),
                          (js ''suggestion'',
                           JStr (js ''Use maxLength parameter or modify JavaScript to return smaller dataset''))]))
                r
            else
              addResult
                ([0x26A0, 0xFE0F] @ js '' JavaScript execution result too large (~''
                 @ toLocaleString ext (ceil_div (length jsonResult) 3)
                 @ js '' tokens), exceeds limit ('' @ showNat 20000
                 @ js '' tokens).'' @ nl @ nl @ js ''Recommended solutions:'' @ nl @ nl
                 @ js ''1. Limit length: {\"maxLength\": '' @ showInt (maxLen div 2) @ js ''}'' @ nl
                 @ js ''2. Return summary: {\"returnSummary\": true}'' @ nl
                 @ js ''3. Modify JavaScript code to return smaller dataset'' @ nl @ nl
                 @ js ''Result preview (first 1000 characters):'' @ nl
                 @ slice_js jsonResult 0 1000 @ js ''...'')
                r)
         else if int (length jsonResult) > maxLen then
           (if returnSummary params = Some True then
              addResult (JSON_stringify2 (lengthSummary res jsonResult maxLen)) r
            else
              addResult
                ([0x26A0, 0xFE0F] @ js '' Result truncated to '' @ showInt maxLen
                 @ js '' characters (original: '' @ showNat (length jsonResult)
                 @ js '' characters).'' @ nl @ nl
                 @ slice_js jsonResult 0 maxLen @ js ''...'')
                r)
         else addResult jsonResult r)"

subsection \<open>The handler that checks \<open>maxLength\<close> first\<close>

definition evaluate_maxLength_first ::
    "externals \<Rightarrow> EvaluateParams \<Rightarrow> json option \<Rightarrow> Response \<Rightarrow> Response" where
  "evaluate_maxLength_first ext params res response =
     (let r = evaluate_prologue ext params response;
          jsonResult = jsonResultOf res;
          maxLen = orInt (maxLength params) 10000
      in if int (length jsonResult) > maxLen then
           (if returnSummary params = Some True then
              addResult (JSON_stringify2 (lengthSummary res jsonResult maxLen)) r
            else if needsPagination (checkTokenLimit ext jsonResult) then
              addResult
                ([0x26A0, 0xFE0F] @ js '' JavaScript''
                 @ [0x6267, 0x884C, 0x7ED3, 0x679C, 0x8FC7, 0x5927] @ js '' ('' @ [0x7EA6]
                 @ toLocaleString ext (ceil_div (length jsonResult) 4)
                 @ js '' tokens)'' @ [0xFF0C, 0x8D85, 0x51FA, 0x9650, 0x5236]
                 @ js '' (24,000 tokens)'' @ [0x3002] @ nl @ nl
                 @ [0x5EFA, 0x8BAE, 0x4F7F, 0x7528, 0x4EE5, 0x4E0B, 0x53C2, 0x6570, 0xFF1A] @ nl @ nl
                 @ js ''1. '' @ [0x9650, 0x5236, 0x957F, 0x5EA6] @ js '': {\"maxLength\": ''
                 @ showInt maxLen @ js ''}'' @ nl
                 @ js ''2. '' @ [0x8FD4, 0x56DE, 0x6458, 0x8981] @ js '': {\"returnSummary\": true}'' @ nl
                 @ js ''3. '' @ [0x4FEE, 0x6539] @ js ''JavaScript''
                 @ [0x4EE3, 0x7801, 0x8FD4, 0x56DE, 0x66F4, 0x5C0F, 0x7684, 0x6570, 0x636E, 0x96C6]
                 @ nl @ nl
                 @ [0x7ED3, 0x679C, 0x9884, 0x89C8] @ js '' ('' @ [0x524D] @ js ''1000''
                 @ [0x5B57, 0x7B26] @ js '')'' @ [0xFF1A] @ nl
                 @ slice_js jsonResult 0 1000 @ js ''...'')
                r
            else addResult jsonResult r)
         else addResult jsonResult r)"

section \<open>Class \<open>ClaudeDelegate\<close>\<close>

text \<open>
  The generic conversation (its types are declared in \<open>loop.js\<close>): a message is
  a user message, an assistant message with a text and, when present, tool calls, or a
  tool message that carries one result.
\<close>

record LLMToolCall =
  tc_name :: jsstring
  tc_arguments :: obj
  tc_id :: jsstring

datatype LLMMessage =
    UserMessage jsstring
  | AssistantMessage jsstring "LLMToolCall list option"
  | ToolMessage jsstring jsstring "bool option"

record Tool =
  tool_name :: jsstring
  tool_description :: "jsstring option"
  tool_inputSchema :: json

record LLMTool =
  llm_name :: jsstring
  llm_description :: jsstring
  llm_inputSchema :: json

record LLMConversation =
  messages :: "LLMMessage list"
  tools :: "LLMTool list"

text \<open>
  The provider's message format. A text block is always built with an empty list of
  citations, which the model leaves out.
\<close>

datatype Role = user | assistant

datatype ContentBlock =
    text_block jsstring
  | tool_use jsstring jsstring obj

record ToolResultBlockParam =
  tool_use_id :: jsstring
  tr_content :: jsstring
  is_error :: "bool option"

datatype MessageContent =
    StringContent jsstring
  | BlockContent "ContentBlock list"
  | ToolResultContent "ToolResultBlockParam list"

record MessageParam =
  role :: Role
  mp_content :: MessageContent

record ClaudeTool =
  ct_name :: jsstring
  ct_description :: jsstring
  input_schema :: json

subsection \<open>\<open>createConversation\<close>\<close>

definition doneTool :: LLMTool where
  "doneTool =
     \<lparr>llm_name = js ''done'',
      llm_description = js ''Call this tool when the task is complete.'',
      llm_inputSchema = JObj [(js ''type'', JStr (js ''object'')), (js ''properties'', JObj [])]\<rparr>"

text \<open>The callback of \<open>tools.map\<close>.\<close>

definition toLLMTool :: "Tool \<Rightarrow> LLMTool" where
  "toLLMTool tool =
     \<lparr>llm_name = tool_name tool,
      llm_description =
        (case tool_description tool of
           None \<Rightarrow> []
         | Some d \<Rightarrow> if d \<noteq> [] then d else []),
      llm_inputSchema = tool_inputSchema tool\<rparr>"

definition createConversation :: "jsstring \<Rightarrow> Tool list \<Rightarrow> bool \<Rightarrow> LLMConversation" where
  "createConversation task ts oneShot =
     (let llmTools = map toLLMTool ts;
          llmTools' = (if \<not> oneShot then llmTools @ [doneTool] else llmTools)
      in \<lparr>messages = [UserMessage task], tools = llmTools'\<rparr>)"

subsection \<open>\<open>makeApiCall\<close>: the translation of the messages\<close>

definition isAssistant :: "LLMMessage \<Rightarrow> bool" where
  "isAssistant m = (case m of AssistantMessage c tcs \<Rightarrow> True | _ \<Rightarrow> False)"

text \<open>\<open>[...conversation.messages].reverse().find(m => m.role === 'assistant')\<close>.\<close>

definition lastAssistantMessage :: "LLMMessage list \<Rightarrow> LLMMessage option" where
  "lastAssistantMessage ms = find isAssistant (rev ms)"

text \<open>
  One round of the loop over the messages. The state is the pair of
  \<open>claudeMessages\<close> and \<open>pendingToolResults\<close>; \<open>allMessages\<close> is the
  whole \<open>conversation.messages\<close>, which the tool branch searches.
\<close>

fun convertMessage ::
    "LLMMessage list \<Rightarrow> LLMMessage \<Rightarrow> MessageParam list \<times> ToolResultBlockParam list
      \<Rightarrow> MessageParam list \<times> ToolResultBlockParam list" where
  "convertMessage allMessages (UserMessage c) (claudeMessages, pendingToolResults) =
     (claudeMessages @ [\<lparr>role = user, mp_content = StringContent c\<rparr>], pendingToolResults)"
| "convertMessage allMessages (AssistantMessage c toolCalls) (claudeMessages, pendingToolResults) =
     (let content1 = (if c \<noteq> [] then [text_block c] else []);
          content2 =
            (case toolCalls of
               None \<Rightarrow> content1
             | Some tcs \<Rightarrow>
                 content1 @ map (\<lambda>tc. tool_use (tc_id tc) (tc_name tc) (tc_arguments tc)) tcs);
          claudeMessages' = claudeMessages @ [\<lparr>role = assistant, mp_content = BlockContent content2\<rparr>]
      in case toolCalls of
           None \<Rightarrow> (claudeMessages', pendingToolResults)
         | Some tcs \<Rightarrow>
             if length tcs > 0 then (claudeMessages', [])
             else (claudeMessages', pendingToolResults))"
| "convertMessage allMessages (ToolMessage toolCallId c err) (claudeMessages, pendingToolResults) =
     (let toolResult = \<lparr>tool_use_id = toolCallId, tr_content = c, is_error = err\<rparr>;
          pending' = pendingToolResults @ [toolResult]
      in case lastAssistantMessage allMessages of
           Some (AssistantMessage lc (Some lastToolCalls)) \<Rightarrow>
             (let allToolCallIds = map tc_id lastToolCalls;
                  collectedIds = map tool_use_id pending'
              in if list_all (\<lambda>i. i \<in> set collectedIds) allToolCallIds
                 then (claudeMessages
                         @ [\<lparr>role = user, mp_content = ToolResultContent pending'\<rparr>], [])
                 else (claudeMessages, pending'))
         | _ \<Rightarrow> (claudeMessages, pending'))"

text \<open>The loop and the flush that follows it: the final value of \<open>claudeMessages\<close>.\<close>

definition claudeMessagesOf :: "LLMConversation \<Rightarrow> MessageParam list" where
  "claudeMessagesOf conversation =
     (let (claudeMessages, pendingToolResults) =
            fold (convertMessage (messages conversation)) (messages conversation) ([], [])
      in if length pendingToolResults > 0
         then claudeMessages @ [\<lparr>role = user, mp_content = ToolResultContent pendingToolResults\<rparr>]
         else claudeMessages)"

text \<open>
  The rest of \<open>makeApiCall\<close>. The provider's answer to the request is an input:
  \<open>create\<close> maps the messages and the tools to the content blocks of the response.
\<close>

definition makeApiCall ::
    "(MessageParam list \<Rightarrow> ClaudeTool list \<Rightarrow> ContentBlock list) \<Rightarrow> LLMConversation
      \<Rightarrow> LLMToolCall list \<times> LLMConversation" where
  "makeApiCall create conversation =
     (let claudeMessages = claudeMessagesOf conversation;
          claudeTools =
            map (\<lambda>tool. \<lparr>ct_name = llm_name tool, ct_description = llm_description tool,
                          input_schema = llm_inputSchema tool\<rparr>) (tools conversation);
          response = create claudeMessages claudeTools;
          llmToolCalls =
            concat (map (\<lambda>b. case b of
                                tool_use i n inp \<Rightarrow> [\<lparr>tc_name = n, tc_arguments = inp, tc_id = i\<rparr>]
                              | text_block t \<Rightarrow> []) response);
          textContent =
            concat (map (\<lambda>b. case b of text_block t \<Rightarrow> t | tool_use i n inp \<Rightarrow> []) response)
      in (llmToolCalls,
          conversation\<lparr>messages := messages conversation
             @ [AssistantMessage textContent
                  (if length llmToolCalls > 0 then Some llmToolCalls else None)]\<rparr>))"

subsection \<open>\<open>addToolResults\<close> and \<open>checkDoneToolCall\<close>\<close>

definition addToolResults ::
    "LLMConversation \<Rightarrow> (jsstring \<times> jsstring \<times> bool option) list \<Rightarrow> LLMConversation" where
  "addToolResults conversation results =
     conversation\<lparr>messages := messages conversation
        @ map (\<lambda>(toolCallId, c, err). ToolMessage toolCallId c err) results\<rparr>"

text \<open>
  \<open>checkDoneToolCall\<close> returns \<open>null\<close> or the property \<open>result\<close> of the
  arguments, which is \<open>undefined\<close> when the arguments have no such property.
\<close>

datatype DoneResult = Null | Undefined | Value json

definition checkDoneToolCall :: "LLMToolCall \<Rightarrow> DoneResult" where
  "checkDoneToolCall toolCall =
     (if tc_name toolCall = js ''done''
      then (case obj_get (tc_arguments toolCall) (js ''result'') of
              None \<Rightarrow> Undefined
            | Some v \<Rightarrow> Value v)
      else Null)"

section \<open>The advice the specification describes\<close>

text \<open>
  The page entries as the specification words them: for each page from 1 to the
  smaller of the page count and 5, one line that suggests the given arguments
  followed by \<open>limit\<close> 100 and \<open>offset\<close> \<open>(page - 1) * 100\<close>.
\<close>

definition suggestedPages :: "int \<Rightarrow> obj \<Rightarrow> jsstring list" where
  "suggestedPages pages args =
     map (\<lambda>page. pageEntry pages page
                   (args @ [(js ''limit'', JNum 100), (js ''offset'', JNum ((page - 1) * 100))]))
         [1..min pages 5]"

definition adviceMessage :: "int \<Rightarrow> obj \<Rightarrow> jsstring" where
  "adviceMessage pages args =
     paginationHeader pages @ concat (suggestedPages pages args)
     @ (if pages > 5 then remainderLine pages else []) @ paginationFooter"

section \<open>Concrete inputs\<close>

text \<open>
  A concrete environment for evaluating the model: numbers are formatted in plain
  decimal, upper case is taken on the ASCII letters, a modal state is rendered as one
  list item, no snapshot is captured and titles stay as they are. The inputs that
  follow are the ones the properties are evaluated at.
\<close>

definition demo_ext :: externals where
  "demo_ext =
     \<lparr>toLocaleString = showNat,
      toNumberOther = (\<lambda>v. 0),
      toUpperCase = map (\<lambda>c. if 97 \<le> c \<and> c \<le> 122 then c - 32 else c),
      renderModalStates = (\<lambda>c ms. map (\<lambda>m. case m of ModalState d \<Rightarrow> js ''- '' @ d) ms),
      captureSnapshot = (\<lambda>t. None),
      updateTitle = (\<lambda>t. t),
      quote = QuoteJSONString,
      generateLocator = (\<lambda>r e. js ''locator'')\<rparr>"



definition demo_ctx :: Context where
  "demo_ctx = \<lparr>tabs = [], currentTab = None, config_imageResponses = None\<rparr>"

definition oversized :: Response where
  "oversized =
     addError (js ''Error: target closed'')
       (addResult (replicate 88001 120) (newResponse (js ''browser_evaluate'') []))"

definition demoImage :: Image where
  "demoImage = \<lparr>contentType = js ''image/png'', data = [137, 80, 78, 71]\<rparr>"

definition oversizedWithImage :: Response where
  "oversizedWithImage =
     addImage demoImage
       (addResult (replicate 88001 120) (newResponse (js ''browser_take_screenshot'') []))"

definition hugeSnapshot :: TabSnapshot where
  "hugeSnapshot =
     \<lparr>url = js ''https://example.com/'', title = js ''Example'',
      ariaSnapshot = replicate 90000 45, modalStates = [],
      consoleMessages = [\<lparr>toString = js ''ready''\<rparr>], downloads = []\<rparr>"

definition exampleTab :: Tab where
  "exampleTab =
     \<lparr>isCurrentTab = True, lastTitle = js ''Example'', page_url = js ''https://example.com/'',
      tab_consoleMessages = [], tab_requests = []\<rparr>"

definition snapshot_ext :: externals where
  "snapshot_ext = demo_ext\<lparr>captureSnapshot := (\<lambda>t. Some hugeSnapshot)\<rparr>"

definition snapshot_ctx :: Context where
  "snapshot_ctx = \<lparr>tabs = [exampleTab], currentTab = Some exampleTab, config_imageResponses = None\<rparr>"

definition shortLimit :: EvaluateParams where
  "shortLimit =
     \<lparr>p_function = js ''() => document.title'', element = None, ref = None,
      maxLength = Some 5, returnSummary = None\<rparr>"

definition doneCall :: LLMToolCall where
  "doneCall =
     \<lparr>tc_name = js ''done'', tc_arguments = [(js ''result'', JStr (js ''X''))], tc_id = js ''toolu_01''\<rparr>"

definition clickCall :: LLMToolCall where
  "clickCall =
     \<lparr>tc_name = js ''browser_click'', tc_arguments = [(js ''result'', JStr (js ''X''))],
      tc_id = js ''toolu_02''\<rparr>"

definition navigateTool :: Tool where
  "navigateTool =
     \<lparr>tool_name = js ''browser_navigate'', tool_description = None,
      tool_inputSchema = JObj [(js ''type'', JStr (js ''object''))]\<rparr>"

definition twoTurns :: LLMConversation where
  "twoTurns =
     \<lparr>messages =
        [UserMessage (js ''open the page and press the button''),
         AssistantMessage []
           (Some [\<lparr>tc_name = js ''browser_navigate'', tc_arguments = [], tc_id = js ''call_a''\<rparr>]),
         ToolMessage (js ''call_a'') (js ''navigated'') None,
         AssistantMessage []
           (Some [\<lparr>tc_name = js ''browser_click'', tc_arguments = [], tc_id = js ''call_b''\<rparr>]),
         ToolMessage (js ''call_b'') (js ''clicked'') None],
      tools = []\<rparr>"

definition filteredArgs :: obj where
  "filteredArgs =
     [(js ''limit'', JNum 7), (js ''level'', JStr (js ''error'')), (js ''offset'', JNum 3)]"


section \<open>Properties\<close>

subsection \<open>The token budget\<close>

lemma neg_div_ceil:
  assumes "0 < (y::int)"
  shows "- ((- x) div y) = (x + y - 1) div y"
proof -
  have "- x = y * ((- x) div y) + (- x) mod y"
    by simp
  then have "x + y - 1 = y * (- ((- x) div y)) + (y - 1 - (- x) mod y)"
    by (simp add: algebra_simps)
  moreover have "0 \<le> (- x) mod y" and "(- x) mod y < y"
    using assms by simp_all
  then have "0 \<le> y - 1 - (- x) mod y" and "y - 1 - (- x) mod y < y"
    by linarith+
  ultimately show ?thesis
    by (metis int_div_pos_eq)
qed

lemma ceil_div_ceiling: "0 < b \<Longrightarrow> ceil_div a b = nat \<lceil>real a / real b\<rceil>"
proof -
  assume b: "0 < b"
  have "\<lceil>real a / real b\<rceil> = \<lceil>real_of_int (int a) / real_of_int (int b)\<rceil>"
    by simp
  also have "\<dots> = - ((- int a) div int b)"
    by (rule ceiling_divide_eq_div)
  also have "\<dots> = (int a + int b - 1) div int b"
    using b by (simp add: neg_div_ceil)
  also have "\<dots> = int (ceil_div a b)"
    using b by (simp add: ceil_div_def zdiv_int of_nat_diff)
  finally show ?thesis by simp
qed

lemma estimate_over: "TOKEN_LIMIT < estimateTokens str \<longleftrightarrow> 88000 < length str"
  by (simp add: estimateTokens_def ceil_div_def TOKEN_LIMIT_def) arith

lemma needsPagination_iff:
  "needsPagination (checkTokenLimit ext str) \<longleftrightarrow> 88000 < length str"
  using estimate_over [of str] by (simp add: checkTokenLimit_def Let_def)

lemma totalPages_defined:
  "needsPagination (checkTokenLimit ext str) \<Longrightarrow>
   totalPages (checkTokenLimit ext str) = Some (ceil_div (estimateTokens str) TOKEN_LIMIT)"
  by (simp add: checkTokenLimit_def Let_def split: if_splits)

text \<open>
  C2. For every input string, the token estimate of \<open>checkTokenLimit\<close> is the ceiling of a
  quarter of the length; pagination is needed exactly when the estimate is greater than
  22000; and then the number of pages is the ceiling of the estimate divided by 22000.
\<close>

theorem checkTokenLimit_spec:
  "estimateTokens str = nat \<lceil>real (length str) / 4\<rceil>
   \<and> needsPagination (checkTokenLimit ext str) = (22000 < estimateTokens str)
   \<and> (needsPagination (checkTokenLimit ext str) \<longrightarrow>
        totalPages (checkTokenLimit ext str)
          = Some (nat \<lceil>real (estimateTokens str) / 22000\<rceil>))"
  using ceil_div_ceiling [of 4 "length str"]
    ceil_div_ceiling [of 22000 "estimateTokens str"]
  by (simp add: checkTokenLimit_def estimateTokens_def Let_def TOKEN_LIMIT_def)

theorem checkTokenLimit_spec_witness:
  "needsPagination (checkTokenLimit demo_ext (replicate 88001 120))
   \<and> totalPages (checkTokenLimit demo_ext (replicate 88001 120)) = Some 2"
  using checkTokenLimit_spec [of "replicate 88001 120" demo_ext]
  by (simp add: checkTokenLimit_def estimateTokens_def Let_def TOKEN_LIMIT_def ceil_div_def)

subsection \<open>Pagination advice\<close>

lemma update_fresh: "k \<notin> fst ` set al \<Longrightarrow> AList.update k v al = al @ [(k, v)]"
  by (induction al) auto

lemma fold_update_fresh:
  "distinct (map fst xs) \<Longrightarrow> fst ` set xs \<inter> fst ` set acc = {} \<Longrightarrow>
   fold (\<lambda>(k, v). obj_set k v) xs acc = acc @ xs"
proof (induction xs arbitrary: acc)
  case Nil
  then show ?case by simp
next
  case (Cons p xs)
  obtain k v where p: "p = (k, v)" by (cases p)
  from Cons.prems p have fresh: "k \<notin> fst ` set acc" by auto
  have "fold (\<lambda>(k, v). obj_set k v) (p # xs) acc
        = fold (\<lambda>(k, v). obj_set k v) xs (acc @ [(k, v)])"
    using fresh by (simp add: p obj_set_def update_fresh)
  also have "\<dots> = (acc @ [(k, v)]) @ xs"
    using Cons.prems p by (intro Cons.IH) auto
  finally show ?case by (simp add: p)
qed

lemma fold_update_distinct:
  "distinct (map fst acc) \<Longrightarrow> distinct (map fst (fold (\<lambda>(k, v). obj_set k v) xs acc))"
  by (induction xs arbitrary: acc) (auto simp: obj_set_def distinct_update)

lemma spread_distinct: "distinct (map fst (spread a b))"
  by (simp add: spread_def fold_update_distinct)

lemma baseParams_distinct: "distinct (map fst (baseParamsOf args extra))"
  by (simp add: baseParamsOf_def obj_delete_def distinct_delete spread_distinct)

lemma baseParams_no_limit: "obj_get (baseParamsOf args extra) (js ''limit'') = None"
  by (simp add: baseParamsOf_def obj_delete_def obj_get_def delete_conv' js_def)

lemma baseParams_no_offset: "obj_get (baseParamsOf args extra) (js ''offset'') = None"
  by (simp add: baseParamsOf_def obj_delete_def obj_get_def delete_conv')

lemma baseParams_other:
  "k \<noteq> js ''limit'' \<Longrightarrow> k \<noteq> js ''offset'' \<Longrightarrow>
   obj_get (baseParamsOf args extra) k = obj_get (spread args extra) k"
  by (simp add: baseParamsOf_def obj_delete_def obj_get_def delete_conv')

lemma baseParams_keys:
  "js ''limit'' \<notin> fst ` set (baseParamsOf args extra)"
  "js ''offset'' \<notin> fst ` set (baseParamsOf args extra)"
  using baseParams_no_limit [of args extra] baseParams_no_offset [of args extra]
  by (simp_all add: obj_get_def map_of_eq_None_iff)

lemma spread_copy: "distinct (map fst ob) \<Longrightarrow> spread ob [] = ob"
  using fold_update_fresh [of ob "[]"] by (simp add: spread_def)

lemma pageParams_baseParams:
  "pageParams ext (baseParamsOf args extra) page
   = baseParamsOf args extra @ [(js ''limit'', JNum 100), (js ''offset'', JNum ((page - 1) * 100))]"
proof -
  let ?bp = "baseParamsOf args extra"
  have lim: "orJson (obj_get ?bp (js ''limit'')) (JNum 100) = JNum 100"
    by (simp add: baseParams_no_limit orJson_def)
  have copy: "spread ?bp [] = ?bp"
    by (rule spread_copy) (rule baseParams_distinct)
  have s1: "obj_set (js ''limit'') (JNum 100) ?bp = ?bp @ [(js ''limit'', JNum 100)]"
    unfolding obj_set_def by (rule update_fresh) (rule baseParams_keys)
  have "js ''offset'' \<noteq> js ''limit''"
    by (simp add: js_def)
  then have "js ''offset'' \<notin> fst ` set (?bp @ [(js ''limit'', JNum 100)])"
    using baseParams_keys(2) [of args extra] by simp
  then have s2: "obj_set (js ''offset'') v (?bp @ [(js ''limit'', JNum 100)])
                 = (?bp @ [(js ''limit'', JNum 100)]) @ [(js ''offset'', v)]" for v
    unfolding obj_set_def by (rule update_fresh)
  show ?thesis
    by (simp add: pageParams_def Let_def lim copy s1 s2 ToNumber_def)
qed

lemma baseParams_plain:
  "distinct (map fst args) \<Longrightarrow>
   baseParamsOf args [] = filter (\<lambda>(k, v). k \<noteq> js ''limit'' \<and> k \<noteq> js ''offset'') args"
  by (simp add: baseParamsOf_def spread_copy obj_delete_def AList.delete_eq case_prod_unfold)
    (rule filter_cong, auto)

lemma pageLoop_eq:
  "pageLoop ext bp pages page msg
   = msg @ concat (map (pageLine ext bp pages) [page..min pages 5])"
proof (induction ext bp pages page msg rule: pageLoop.induct)
  case (1 ext bp pages page msg)
  show ?case
  proof (cases "page \<le> min pages 5")
    case True
    have "pageLoop ext bp pages page msg
          = pageLoop ext bp pages (page + 1) (msg @ pageLine ext bp pages page)"
      by (subst pageLoop.simps) (simp only: True if_True)
    also have "\<dots> = (msg @ pageLine ext bp pages page)
                 @ concat (map (pageLine ext bp pages) [page + 1..min pages 5])"
      using True by (rule "1.IH")
    also have "\<dots> = msg @ concat (map (pageLine ext bp pages) [page..min pages 5])"
      using True by (simp add: upto_rec1 [of page])
    finally show ?thesis .
  next
    case False
    have "pageLoop ext bp pages page msg = msg"
      by (subst pageLoop.simps) (simp only: False if_False)
    moreover from False have "min pages 5 < page"
      by linarith
    then have "[page..min pages 5] = []"
      by (simp only: upto_empty)
    ultimately show ?thesis by simp
  qed
qed

lemma addPaginationWarning_advice:
  "addPaginationWarning ext pages name extra r
   = addResult (adviceMessage pages (baseParamsOf (toolArgs r) extra)) r"
proof -
  have "map (pageLine ext (baseParamsOf (toolArgs r) extra) pages) [1..min pages 5]
        = suggestedPages pages (baseParamsOf (toolArgs r) extra)"
    by (simp add: suggestedPages_def pageLine_def pageParams_baseParams)
  then have "pageLoop ext (baseParamsOf (toolArgs r) extra) pages 1 (paginationHeader pages)
             = paginationHeader pages @ concat (suggestedPages pages (baseParamsOf (toolArgs r) extra))"
    by (simp only: pageLoop_eq)
  then show ?thesis
    by (cases "pages > 5") (simp_all only: addPaginationWarning_def Let_def adviceMessage_def
        if_True if_False append_assoc append_Nil)
qed


text \<open>
  C10. For every page count and every tool arguments, \<open>addPaginationWarning\<close> adds
  one message whose page entries, for the pages 1 to the smaller of the page count and 5,
  suggest the base parameters followed by \<open>limit\<close> 100 and \<open>offset\<close>
  \<open>(page - 1) * 100\<close>. The base parameters have neither \<open>limit\<close> nor
  \<open>offset\<close>, whatever the caller passed, and agree with the merged arguments on
  every other key; without additional parameters they are the caller's arguments with
  \<open>limit\<close> and \<open>offset\<close> removed.
\<close>

theorem addPaginationWarning_suggestions:
  "addPaginationWarning ext pages name extra r
     = addResult (adviceMessage pages (baseParamsOf (toolArgs r) extra)) r
   \<and> obj_get (baseParamsOf (toolArgs r) extra) (js ''limit'') = None
   \<and> obj_get (baseParamsOf (toolArgs r) extra) (js ''offset'') = None
   \<and> (\<forall>k. k \<noteq> js ''limit'' \<and> k \<noteq> js ''offset'' \<longrightarrow>
          obj_get (baseParamsOf (toolArgs r) extra) k = obj_get (spread (toolArgs r) extra) k)
   \<and> (distinct (map fst (toolArgs r)) \<longrightarrow>
        baseParamsOf (toolArgs r) []
          = filter (\<lambda>(k, v). k \<noteq> js ''limit'' \<and> k \<noteq> js ''offset'') (toolArgs r))"
  using addPaginationWarning_advice [of ext pages name extra r]
    baseParams_no_limit [of "toolArgs r" extra] baseParams_no_offset [of "toolArgs r" extra]
    baseParams_other [of _ "toolArgs r" extra] baseParams_plain [of "toolArgs r"]
  by simp

text \<open>
  The arguments \<open>{limit: 7, level: "error", offset: 3}\<close>: only \<open>level\<close> is
  echoed, and the entries of a two-page advice read as follows.
\<close>

theorem addPaginationWarning_suggestions_witness:
  "distinct (map fst filteredArgs)
   \<and> baseParamsOf filteredArgs [] = [(js ''level'', JStr (js ''error''))]
   \<and> priv_result (addPaginationWarning demo_ext 7 (js ''browser_console_messages'') []
         (newResponse (js ''browser_console_messages'') filteredArgs))
       = [adviceMessage 7 [(js ''level'', JStr (js ''error''))]]
   \<and> suggestedPages 2 [(js ''level'', JStr (js ''error''))]
       = [[0x9875, 0x9762] @ js ''1/2: '' @ [0x4F7F, 0x7528, 0x53C2, 0x6570]
            @ js '' {\"level\":\"error\",\"limit\":100,\"offset\":0}'' @ nl,
          [0x9875, 0x9762] @ js ''2/2: '' @ [0x4F7F, 0x7528, 0x53C2, 0x6570]
            @ js '' {\"level\":\"error\",\"limit\":100,\"offset\":100}'' @ nl]"
proof -
  let ?r = "newResponse (js ''browser_console_messages'') filteredArgs"
  have d: "distinct (map fst filteredArgs)"
    by (simp add: filteredArgs_def js_def)
  have f: "filter (\<lambda>(k, v). k \<noteq> js ''limit'' \<and> k \<noteq> js ''offset'') filteredArgs
           = [(js ''level'', JStr (js ''error''))]"
    by (simp add: filteredArgs_def js_def)
  have a: "toolArgs ?r = filteredArgs" "priv_result ?r = []"
    by (simp_all add: newResponse_def)
  have s: "suggestedPages 2 [(js ''level'', JStr (js ''error''))]
       = [[0x9875, 0x9762] @ js ''1/2: '' @ [0x4F7F, 0x7528, 0x53C2, 0x6570]
            @ js '' {\"level\":\"error\",\"limit\":100,\"offset\":0}'' @ nl,
          [0x9875, 0x9762] @ js ''2/2: '' @ [0x4F7F, 0x7528, 0x53C2, 0x6570]
            @ js '' {\"level\":\"error\",\"limit\":100,\"offset\":100}'' @ nl]"
    by (simp add: suggestedPages_def pageEntry_def upto_rec1 JSON_stringify_def
        QuoteJSONString_def showInt_def showNat.simps isLeadingSurrogate_def
        isTrailingSurrogate_def nl_def js_def)
  show ?thesis
    using addPaginationWarning_suggestions
      [of demo_ext 7 "js ''browser_console_messages''" "[]" ?r] d
    by (simp add: a f s addResult_def)
qed

subsection \<open>The list tools\<close>


lemma pages_at_least_two:
  "TOKEN_LIMIT < n \<Longrightarrow> 2 \<le> ceil_div n TOKEN_LIMIT"
  by (simp add: ceil_div_def TOKEN_LIMIT_def)











subsection \<open>Serialization\<close>

lemma serialize_over:
  assumes "needsPagination (checkTokenLimit ext (fullResponse ext ctx r))"
  shows "serialize ext ctx r
         = \<lparr>content = [TextContent (take 79200 (fullResponse ext ctx r) @ truncationNotice ext)],
            isError = priv_isError r\<rparr>"
  using assms by (simp add: serialize_def Let_def substring0_def TOKEN_LIMIT_def)

lemma serialize_within:
  assumes "\<not> needsPagination (checkTokenLimit ext (fullResponse ext ctx r))"
  shows "serialize ext ctx r
         = \<lparr>content = TextContent (fullResponse ext ctx r)
              # (if config_imageResponses ctx \<noteq> Some (js ''omit'')
                 then map (\<lambda>img. ImageContent (base64 (data img)) (contentType img)) (priv_images r)
                 else []),
            isError = priv_isError r\<rparr>"
  using assms by (simp add: serialize_def Let_def)

text \<open>
  C3. When the assembled text is estimated above 22000 tokens, \<open>serialize\<close> returns
  one text entry, the first 79200 characters followed by the truncation notice, so its
  length is at most 22000 * 4 * 0.9 plus the length of the notice, and the error flag of the
  result is the flag of the response.
\<close>

theorem serialize_emergency_truncation:
  assumes "TOKEN_LIMIT < estimateTokens (fullResponse ext ctx r)"
  shows "content (serialize ext ctx r)
           = [TextContent (take 79200 (fullResponse ext ctx r) @ truncationNotice ext)]
       \<and> length (take 79200 (fullResponse ext ctx r) @ truncationNotice ext)
           \<le> 22000 * 4 * 9 div 10 + length (truncationNotice ext)
       \<and> isError (serialize ext ctx r) = priv_isError r"
proof -
  from assms have "needsPagination (checkTokenLimit ext (fullResponse ext ctx r))"
    by (simp add: needsPagination_iff estimate_over)
  then show ?thesis
    by (simp add: serialize_over)
qed

lemma length_fullResponse_oversized:
  "length (fullResponse demo_ext demo_ctx oversized) = 88034"
  apply (simp add: fullResponse_def oversized_def demo_ctx_def addError_def addResult_def newResponse_def Let_def nl_def js_def)
  done

theorem serialize_emergency_truncation_witness:
  "TOKEN_LIMIT < estimateTokens (fullResponse demo_ext demo_ctx oversized)
   \<and> (\<exists>t. content (serialize demo_ext demo_ctx oversized) = [TextContent t]
          \<and> length t = 79200 + length (truncationNotice demo_ext))
   \<and> isError (serialize demo_ext demo_ctx oversized) = Some True"
proof -
  have h: "TOKEN_LIMIT < estimateTokens (fullResponse demo_ext demo_ctx oversized)"
    by (simp add: estimate_over length_fullResponse_oversized)
  have e: "priv_isError oversized = Some True"
    by (simp add: oversized_def addError_def)
  show ?thesis
    using h serialize_emergency_truncation [OF h]
    by (simp add: e length_fullResponse_oversized)
qed

lemma length_fullResponse_withImage:
  "length (fullResponse demo_ext demo_ctx oversizedWithImage) = 88013"
  by (simp add: fullResponse_def oversizedWithImage_def demo_ctx_def addImage_def addResult_def
      newResponse_def Let_def nl_def js_def)

text \<open>
  C7 fails on the code: a response with one image whose text is over the budget is
  serialized, with image responses allowed, to the truncated text entry alone.
\<close>

theorem serialize_truncation_drops_images:
  "priv_images oversizedWithImage = [demoImage]
   \<and> config_imageResponses demo_ctx \<noteq> Some (js ''omit'')
   \<and> content (serialize demo_ext demo_ctx oversizedWithImage)
       = [TextContent (take 79200 (fullResponse demo_ext demo_ctx oversizedWithImage)
                       @ truncationNotice demo_ext)]"
proof -
  have "needsPagination (checkTokenLimit demo_ext (fullResponse demo_ext demo_ctx oversizedWithImage))"
    by (simp add: needsPagination_iff length_fullResponse_withImage)
  then show ?thesis
    by (simp add: serialize_over oversizedWithImage_def addImage_def addResult_def newResponse_def
        demo_ctx_def)
qed

subsection \<open>Snapshot truncation\<close>

lemma snapshotWarning_names_parameters:
  "sublist (js ''maxElements'') (snapshotWarning ext n)"
  "sublist (js ''elementTypes'') (snapshotWarning ext n)"
  "sublist (js ''skipLargeTexts'') (snapshotWarning ext n)"
proof -
  let ?head = "nl @ nl @ [0x26A0, 0xFE0F]
     @ js '' SNAPSHOT TRUNCATED: Page snapshot was too large (''
     @ toLocaleString ext n @ js '' tokens, limit: '' @ toLocaleString ext TOKEN_LIMIT
     @ js '').'' @ nl @ nl
     @ js ''To get a complete snapshot, use browser_snapshot with filtering parameters:'' @ nl"
  have "snapshotWarning ext n
        = (?head @ js ''- {\"'') @ js ''maxElements''
          @ (js ''\": 200} - Limit number of elements'' @ nl
             @ js ''- {\"elementTypes\": [\"button\", \"textbox\", \"link\", \"heading\"]} - Filter by element types  '' @ nl
             @ js ''- {\"skipLargeTexts\": true} - Skip elements with large text content'' @ nl
             @ js ''- Combine parameters for best results'' @ nl @ nl
             @ js ''--- TRUNCATED SNAPSHOT ABOVE ---'')"
    by (simp add: snapshotWarning_def js_def)
  then show "sublist (js ''maxElements'') (snapshotWarning ext n)"
    by (simp only: sublist_appendI)
  have "snapshotWarning ext n
        = (?head @ js ''- {\"maxElements\": 200} - Limit number of elements'' @ nl @ js ''- {\"'')
          @ js ''elementTypes''
          @ (js ''\": [\"button\", \"textbox\", \"link\", \"heading\"]} - Filter by element types  '' @ nl
             @ js ''- {\"skipLargeTexts\": true} - Skip elements with large text content'' @ nl
             @ js ''- Combine parameters for best results'' @ nl @ nl
             @ js ''--- TRUNCATED SNAPSHOT ABOVE ---'')"
    by (simp add: snapshotWarning_def js_def)
  then show "sublist (js ''elementTypes'') (snapshotWarning ext n)"
    by (simp only: sublist_appendI)
  have "snapshotWarning ext n
        = (?head @ js ''- {\"maxElements\": 200} - Limit number of elements'' @ nl
           @ js ''- {\"elementTypes\": [\"button\", \"textbox\", \"link\", \"heading\"]} - Filter by element types  '' @ nl
           @ js ''- {\"'')
          @ js ''skipLargeTexts''
          @ (js ''\": true} - Skip elements with large text content'' @ nl
             @ js ''- Combine parameters for best results'' @ nl @ nl
             @ js ''--- TRUNCATED SNAPSHOT ABOVE ---'')"
    by (simp add: snapshotWarning_def js_def)
  then show "sublist (js ''skipLargeTexts'') (snapshotWarning ext n)"
    by (simp only: sublist_appendI)
qed

text \<open>
  C4. When a snapshot is captured whose accessibility tree is estimated above 22000
  tokens, \<open>finish\<close> stores a snapshot whose accessibility tree is the first 70400
  characters of the original, a prefix of it, followed by the warning block, which names
  the three filtering parameters; every other field is the original's.
\<close>

theorem finish_truncates_snapshot:
  assumes "priv_includeSnapshot r" and "currentTab ctx = Some tab"
    and "captureSnapshot ext tab = Some snap"
    and "TOKEN_LIMIT < estimateTokens (ariaSnapshot snap)"
  shows "\<exists>stored.
           priv_tabSnapshot (fst (finish ext ctx r)) = Some stored
         \<and> ariaSnapshot stored
             = take 70400 (ariaSnapshot snap)
               @ snapshotWarning ext (estimateTokens (ariaSnapshot snap))
         \<and> prefix (take 70400 (ariaSnapshot snap)) (ariaSnapshot snap)
         \<and> length (take 70400 (ariaSnapshot snap)) \<le> 22000 * 4 * 8 div 10
         \<and> sublist (js ''maxElements'') (snapshotWarning ext (estimateTokens (ariaSnapshot snap)))
         \<and> sublist (js ''elementTypes'') (snapshotWarning ext (estimateTokens (ariaSnapshot snap)))
         \<and> sublist (js ''skipLargeTexts'') (snapshotWarning ext (estimateTokens (ariaSnapshot snap)))
         \<and> url stored = url snap \<and> title stored = title snap
         \<and> consoleMessages stored = consoleMessages snap
         \<and> downloads stored = downloads snap
         \<and> modalStates stored = modalStates snap"
proof -
  from assms(4) have over: "needsPagination (checkTokenLimit ext (ariaSnapshot snap))"
    by (simp add: needsPagination_iff estimate_over)
  from assms(4) have ne: "ariaSnapshot snap \<noteq> []"
    by (auto simp: estimate_over)
  have "priv_tabSnapshot (fst (finish ext ctx r))
        = Some (createTruncatedSnapshot ext snap (checkTokenLimit ext (ariaSnapshot snap)))"
    using assms(1-3) over ne by (simp add: finish_def Let_def)
  then show ?thesis
    by (simp add: createTruncatedSnapshot_def Let_def substring0_def TOKEN_LIMIT_def
        snapshotWarning_names_parameters take_is_prefix)
      (simp add: estimateTokens_def)
qed

theorem finish_truncates_snapshot_witness:
  "\<exists>stored.
     priv_tabSnapshot
       (fst (finish snapshot_ext snapshot_ctx
               (setIncludeSnapshot (newResponse (js ''browser_click'') [])))) = Some stored
     \<and> ariaSnapshot stored = replicate 70400 45 @ snapshotWarning snapshot_ext 22500
     \<and> url stored = js ''https://example.com/''
     \<and> consoleMessages stored = [\<lparr>toString = js ''ready''\<rparr>]"
proof -
  let ?r = "setIncludeSnapshot (newResponse (js ''browser_click'') [])"
  have e: "estimateTokens (ariaSnapshot hugeSnapshot) = 22500"
    by (simp add: estimateTokens_def ceil_div_def hugeSnapshot_def)
  have h: "priv_includeSnapshot ?r" "currentTab snapshot_ctx = Some exampleTab"
    "captureSnapshot snapshot_ext exampleTab = Some hugeSnapshot"
    "TOKEN_LIMIT < estimateTokens (ariaSnapshot hugeSnapshot)"
    by (simp_all add: setIncludeSnapshot_def newResponse_def snapshot_ctx_def snapshot_ext_def e
        TOKEN_LIMIT_def)
  show ?thesis
    using finish_truncates_snapshot [OF h]
    by (auto simp add: hugeSnapshot_def estimateTokens_def ceil_div_def)
qed

subsection \<open>The evaluate handlers\<close>

lemma jsonResult_title: "jsonResultOf (Some (JStr (js ''abcdefgh''))) = js ''\"abcdefgh\"''"
  by (simp add: jsonResultOf_def JSON_stringify2_def QuoteJSONString_def js_def
      isLeadingSurrogate_def isTrailingSurrogate_def)

lemma evaluate_budget_first_short:
  "evaluate_budget_first ext shortLimit (Some (JStr (js ''abcdefgh''))) r
   = addResult ([0x26A0, 0xFE0F] @ js '' Result truncated to 5 characters (original: 10 characters).''
        @ nl @ nl @ js ''\"abcd...'') (evaluate_prologue ext shortLimit r)"
proof -
  have n: "\<not> needsPagination (checkTokenLimit ext (js ''\"abcdefgh\"''))"
    by (simp add: needsPagination_iff js_def)
  have s: "slice_js (js ''\"abcdefgh\"'') 0 5 = js ''\"abcd''"
    by (simp add: slice_js_def js_def)
  show ?thesis
    by (simp add: evaluate_budget_first_def Let_def jsonResult_title n s shortLimit_def orInt_def)
      (simp add: js_def showInt_def showNat.simps)
qed

lemma evaluate_maxLength_first_short:
  "evaluate_maxLength_first ext shortLimit (Some (JStr (js ''abcdefgh''))) r
   = addResult (js ''\"abcdefgh\"'') (evaluate_prologue ext shortLimit r)"
proof -
  have n: "\<not> needsPagination (checkTokenLimit ext (js ''\"abcdefgh\"''))"
    by (simp add: needsPagination_iff js_def)
  show ?thesis
    by (simp add: evaluate_maxLength_first_def Let_def jsonResult_title n shortLimit_def orInt_def)
qed

lemma prologue_short:
  "evaluate_prologue demo_ext shortLimit (newResponse (js ''browser_evaluate'') [])
   = (newResponse (js ''browser_evaluate'') [])
       \<lparr>priv_includeSnapshot := True,
        priv_code := [js ''await page.evaluate(\"() => document.title\");'']\<rparr>"
  by (simp add: evaluate_prologue_def shortLimit_def demo_ext_def setIncludeSnapshot_def addCode_def
      newResponse_def QuoteJSONString_def isLeadingSurrogate_def isTrailingSurrogate_def js_def)

lemma serialized_differ:
  "content (serialize demo_ext demo_ctx
      (evaluate_budget_first demo_ext shortLimit (Some (JStr (js ''abcdefgh'')))
         (newResponse (js ''browser_evaluate'') [])))
   \<noteq> content (serialize demo_ext demo_ctx
      (evaluate_maxLength_first demo_ext shortLimit (Some (JStr (js ''abcdefgh'')))
         (newResponse (js ''browser_evaluate'') [])))"
  unfolding evaluate_budget_first_short evaluate_maxLength_first_short prologue_short
  by (simp add: serialize_def Let_def needsPagination_iff fullResponse_def addResult_def
      newResponse_def demo_ctx_def renderTabsMarkdown_def nl_def js_def)

text \<open>
  C8. The two \<open>browser_evaluate\<close> handlers are not equivalent: for some parameters
  and some evaluation result they leave different results in the response, whatever the
  response held before, and the serialized content of a fresh response differs too.
\<close>

theorem evaluate_handlers_not_equivalent:
  "\<exists>params res.
     (\<forall>ext r. priv_result (evaluate_budget_first ext params res r)
              \<noteq> priv_result (evaluate_maxLength_first ext params res r))
     \<and> content (serialize demo_ext demo_ctx
           (evaluate_budget_first demo_ext params res (newResponse (js ''browser_evaluate'') [])))
       \<noteq> content (serialize demo_ext demo_ctx
           (evaluate_maxLength_first demo_ext params res (newResponse (js ''browser_evaluate'') [])))"
proof -
  have "priv_result (evaluate_budget_first ext shortLimit (Some (JStr (js ''abcdefgh''))) r)
        \<noteq> priv_result (evaluate_maxLength_first ext shortLimit (Some (JStr (js ''abcdefgh''))) r)"
    for ext r
    unfolding evaluate_budget_first_short evaluate_maxLength_first_short
    by (simp add: addResult_def js_def)
  with serialized_differ show ?thesis by blast
qed

subsection \<open>The conversation bridge\<close>

text \<open>
  C9. \<open>checkDoneToolCall\<close> returns the result string of a call named \<open>done\<close>
  with the arguments \<open>{result: x}\<close> and \<open>null\<close> for a call of any other name;
  \<open>createConversation\<close> puts the \<open>done\<close> tool, which has no parameters, after
  the converted tools exactly when the conversation is not one-shot.
\<close>

theorem done_tool_spec:
  "(tc_name toolCall = js ''done'' \<and> tc_arguments toolCall = [(js ''result'', JStr x)] \<longrightarrow>
      checkDoneToolCall toolCall = Value (JStr x))
   \<and> (tc_name toolCall \<noteq> js ''done'' \<longrightarrow> checkDoneToolCall toolCall = Null)
   \<and> tools (createConversation task ts oneShot)
       = map toLLMTool ts @ (if oneShot then [] else [doneTool])
   \<and> llm_name doneTool = js ''done''
   \<and> obj_get (case llm_inputSchema doneTool of JObj kvs \<Rightarrow> kvs | _ \<Rightarrow> []) (js ''properties'')
       = Some (JObj [])"
  by (simp add: checkDoneToolCall_def createConversation_def doneTool_def obj_get_def Let_def js_def)

theorem done_tool_spec_witness:
  "checkDoneToolCall doneCall = Value (JStr (js ''X''))
   \<and> checkDoneToolCall clickCall = Null
   \<and> tools (createConversation (js ''task'') [navigateTool] False) = [toLLMTool navigateTool, doneTool]
   \<and> tools (createConversation (js ''task'') [navigateTool] True) = [toLLMTool navigateTool]"
  using done_tool_spec [of doneCall "js ''X''" "js ''task''" "[navigateTool]" False]
    done_tool_spec [of clickCall "js ''X''" "js ''task''" "[navigateTool]" True]
  by (simp add: doneCall_def clickCall_def js_def)

text \<open>
  C1 fails on the code: for a conversation of two assistant turns that each call one
  tool, each answered by its result, the translation holds one batch of results only, and
  the result of the first call is gone.
\<close>

theorem makeApiCall_drops_earlier_results:
  "claudeMessagesOf twoTurns =
     [\<lparr>role = user, mp_content = StringContent (js ''open the page and press the button'')\<rparr>,
      \<lparr>role = assistant, mp_content = BlockContent [tool_use (js ''call_a'') (js ''browser_navigate'') []]\<rparr>,
      \<lparr>role = assistant, mp_content = BlockContent [tool_use (js ''call_b'') (js ''browser_click'') []]\<rparr>,
      \<lparr>role = user,
       mp_content = ToolResultContent
         [\<lparr>tool_use_id = js ''call_b'', tr_content = js ''clicked'', is_error = None\<rparr>]\<rparr>]"
  by (simp add: claudeMessagesOf_def twoTurns_def lastAssistantMessage_def isAssistant_def js_def)

text \<open>The same conversation cut after the first result keeps that result.\<close>

lemma makeApiCall_single_turn:
  "claudeMessagesOf (twoTurns\<lparr>messages := take 3 (messages twoTurns)\<rparr>) =
     [\<lparr>role = user, mp_content = StringContent (js ''open the page and press the button'')\<rparr>,
      \<lparr>role = assistant, mp_content = BlockContent [tool_use (js ''call_a'') (js ''browser_navigate'') []]\<rparr>,
      \<lparr>role = user,
       mp_content = ToolResultContent
         [\<lparr>tool_use_id = js ''call_a'', tr_content = js ''navigated'', is_error = None\<rparr>]\<rparr>]"
  by (simp add: claudeMessagesOf_def twoTurns_def lastAssistantMessage_def isAssistant_def js_def)

end
